theory Spec2Isabelle
  imports Main "HOL-Library.Multiset"
begin

section \<open>Data model\<close>

text \<open>
  The caller of a request is \<open>request.user\<close>: Django's \<open>AnonymousUser\<close> (no id, never
  staff, never authenticated) or a stored user with a primary key and the
  \<open>is_staff\<close> flag.
\<close>

datatype user = AnonymousUser | User nat bool

fun is_staff :: "user \<Rightarrow> bool" where
  "is_staff AnonymousUser = False"
| "is_staff (User uid staff) = staff"

fun is_authenticated :: "user \<Rightarrow> bool" where
  "is_authenticated AnonymousUser = False"
| "is_authenticated (User uid staff) = True"

fun user_id :: "user \<Rightarrow> nat option" where
  "user_id AnonymousUser = None"
| "user_id (User uid staff) = Some uid"

text \<open>
  Modelled from the spec: the rows of \<open>models.py\<close>, which is not among the sources.
  The field names \<open>id\<close>, \<open>slug\<close>, \<open>author\<close>, \<open>is_published\<close>, \<open>created_at\<close> and
  \<open>is_approved\<close> are the ones \<open>views.py\<close> uses; title, body and the parent post of a
  comment are those of the spec's data model. References to users and posts are
  primary keys.
\<close>

record post =
  post_id :: nat
  post_slug :: string
  post_title :: string
  post_body :: string
  post_author :: nat
  is_published :: bool
  created_at :: int

record comment =
  comment_id :: nat
  comment_post :: nat
  comment_author :: nat
  comment_body :: string
  is_approved :: bool

text \<open>
  The persistent store: the rows of both tables, each in the order in which the
  database yields them when no ordering is requested.
\<close>

record store =
  posts :: "post list"
  comments :: "comment list"

text \<open>\<open>self.action\<close> of the view set, as the router sets it.\<close>

datatype action = List | Retrieve | Create | Update | PartialUpdate | Destroy

datatype error = NotFound | PermissionDenied | NotAuthenticated | ValidationError | ServerError

text \<open>
  \<open>serializer.validated_data\<close> is a dictionary from field names to validated values.
\<close>

datatype field_value = VBool bool | VStr string | VRef nat

type_synonym validated_data = "string \<rightharpoonup> field_value"

section \<open>PostViewSet\<close>

text \<open>
  \<open>order_by("-created_at")\<close>: the rows sorted by creation time, newest first. The
  query names no second key, so rows with the same creation time stay in the
  order of the store (the sort is stable).
\<close>

definition order_by_created_at_desc :: "post list \<Rightarrow> post list" where
  "order_by_created_at_desc queryset = sort_key (\<lambda>p. - created_at p) queryset"

text \<open>
  \<open>PostViewSet.get_queryset\<close>. \<open>select_related\<close> and \<open>prefetch_related\<close> load related
  rows early and leave the selected posts as they are.
\<close>

definition get_queryset :: "user \<Rightarrow> action \<Rightarrow> post list \<Rightarrow> post list" where
  "get_queryset u a objects =
     (let queryset = (if is_staff u then objects else filter is_published objects)
      in if a = List then order_by_created_at_desc queryset
         else if a = Retrieve then queryset
         else queryset)"

text \<open>
  Modelled from the spec: \<open>IsAdminOrReadOnly\<close> of \<open>permissions.py\<close>, which is not among
  the sources. Section 4.1: the read actions on a post are always permitted; a write
  action is permitted only to staff, or, when the action is create, to any
  authenticated caller. The rule does not look at the post, so the check on the
  view and the check on the object give the same answer.
\<close>

definition IsAdminOrReadOnly :: "user \<Rightarrow> action \<Rightarrow> bool" where
  "IsAdminOrReadOnly u a =
     (if a = List \<or> a = Retrieve then True
      else is_staff u \<or> (a = Create \<and> is_authenticated u))"

text \<open>
  The framework's \<open>check_permissions\<close> and \<open>check_object_permissions\<close>: a refusal is
  reported as 401 to a caller who is not authenticated and as 403 to one who is.
\<close>

definition permission_denied :: "user \<Rightarrow> error" where
  "permission_denied u = (if is_authenticated u then PermissionDenied else NotAuthenticated)"

definition check_permissions :: "bool \<Rightarrow> user \<Rightarrow> error + unit" where
  "check_permissions granted u = (if granted then Inr () else Inl (permission_denied u))"

text \<open>
  The framework's \<open>get_object\<close> on the view set: the row with the requested primary
  key is looked up in \<open>get_queryset()\<close>; a key that is not there is 404; the object
  permission is checked on the row found.
\<close>

definition get_object :: "user \<Rightarrow> action \<Rightarrow> nat \<Rightarrow> store \<Rightarrow> error + post" where
  "get_object u a pk db =
     (case find (\<lambda>p. post_id p = pk) (get_queryset u a (posts db)) of
        None \<Rightarrow> Inl NotFound
      | Some obj \<Rightarrow>
          (case check_permissions (IsAdminOrReadOnly u a) u of
             Inl e \<Rightarrow> Inl e
           | Inr ok \<Rightarrow> Inr obj))"

text \<open>\<open>PostViewSet.get_serializer_class\<close>.\<close>

datatype serializer_class = PostListSerializer | PostDetailSerializer | PostWriteSerializer

definition get_serializer_class :: "action \<Rightarrow> serializer_class" where
  "get_serializer_class a =
     (if a = Create \<or> a = Update \<or> a = PartialUpdate then PostWriteSerializer
      else if a = Retrieve then PostDetailSerializer
      else PostListSerializer)"

text \<open>
  \<open>comment_set\<close> of a post, the reverse of the comment's reference to its post, as
  \<open>prefetch_related("comment_set__author")\<close> loads it: every comment of the post.
\<close>

definition comment_set :: "store \<Rightarrow> post \<Rightarrow> comment list" where
  "comment_set db p = filter (\<lambda>c. comment_post c = post_id p) (comments db)"

text \<open>
  Modelled from the spec: the serializers of \<open>serializers.py\<close>, which is not among the
  sources. Section 4.3: the detail of a post is the post with the nested sequence of its
  comments, approved and unapproved; the list shows one summary for each post. Which
  columns a serializer leaves out is not modelled: a representation carries the row.
\<close>

datatype representation = Summary post | Detail post "comment list" | Written post

definition serializer_data :: "serializer_class \<Rightarrow> store \<Rightarrow> post \<Rightarrow> representation" where
  "serializer_data cls db obj =
     (case cls of
        PostListSerializer \<Rightarrow> Summary obj
      | PostDetailSerializer \<Rightarrow> Detail obj (comment_set db obj)
      | PostWriteSerializer \<Rightarrow> Written obj)"

text \<open>
  The framework's \<open>list\<close> and \<open>retrieve\<close> of a model view set: the permission of the
  view is checked first, then the handler runs on \<open>get_queryset()\<close>.
\<close>

definition post_list :: "user \<Rightarrow> store \<Rightarrow> error + representation list" where
  "post_list u db =
     (case check_permissions (IsAdminOrReadOnly u List) u of
        Inl e \<Rightarrow> Inl e
      | Inr ok \<Rightarrow>
          Inr (map (serializer_data (get_serializer_class List) db)
                 (get_queryset u List (posts db))))"

definition post_retrieve :: "user \<Rightarrow> nat \<Rightarrow> store \<Rightarrow> error + representation" where
  "post_retrieve u pk db =
     (case check_permissions (IsAdminOrReadOnly u Retrieve) u of
        Inl e \<Rightarrow> Inl e
      | Inr ok \<Rightarrow>
          (case get_object u Retrieve pk db of
             Inl e \<Rightarrow> Inl e
           | Inr obj \<Rightarrow> Inr (serializer_data (get_serializer_class Retrieve) db obj)))"

text \<open>
  Reading a field of \<open>validated_data\<close>, with the value to use when the key is absent.
\<close>

definition str_field :: "validated_data \<Rightarrow> string \<Rightarrow> string \<Rightarrow> string" where
  "str_field vd k d = (case vd k of Some (VStr s) \<Rightarrow> s | _ \<Rightarrow> d)"

definition bool_field :: "validated_data \<Rightarrow> string \<Rightarrow> bool \<Rightarrow> bool" where
  "bool_field vd k d = (case vd k of Some (VBool b) \<Rightarrow> b | _ \<Rightarrow> d)"

definition ref_field :: "validated_data \<Rightarrow> string \<Rightarrow> nat \<Rightarrow> nat" where
  "ref_field vd k d = (case vd k of Some (VRef n) \<Rightarrow> n | _ \<Rightarrow> d)"

text \<open>Python's \<open>str\<close> of a primary key, as the f-string of \<open>create\<close> formats it.\<close>

definition digit_char :: "nat \<Rightarrow> char" where
  "digit_char d = ''0123456789'' ! d"

fun str_nat :: "nat \<Rightarrow> string" where
  "str_nat n = (if n < 10 then [digit_char n] else str_nat (n div 10) @ [digit_char (n mod 10)])"

declare str_nat.simps [simp del]

text \<open>
  What the model and the database give a new post: its primary key, its slug and its
  creation time. \<open>models.py\<close> is not among the sources, so they are parameters.
\<close>

record assigned =
  new_id :: nat
  new_slug :: string
  now :: int

text \<open>
  \<open>PostViewSet.perform_create\<close>: \<open>serializer.save(author=self.request.user)\<close> inserts a
  row with the validated fields and the caller as author. An anonymous caller is no
  user row, and saving it as author raises.
\<close>

definition perform_create :: "user \<Rightarrow> assigned \<Rightarrow> validated_data \<Rightarrow> error + post" where
  "perform_create u asg vd =
     (case user_id u of
        None \<Rightarrow> Inl ServerError
      | Some a \<Rightarrow>
          Inr \<lparr>post_id = new_id asg, post_slug = new_slug asg,
               post_title = str_field vd ''title'' [], post_body = str_field vd ''body'' [],
               post_author = a, is_published = bool_field vd ''is_published'' False,
               created_at = now asg\<rparr>)"

text \<open>
  \<open>PostViewSet.create\<close>. The framework's \<open>create\<close> validates the request data
  (\<open>None\<close>: \<open>is_valid\<close> raised; otherwise the validated data), calls \<open>perform_create\<close> and
  answers 201; the override then replaces the body of the response by the two keys.
\<close>

type_synonym response_data = "(string \<times> string) list"

definition post_create ::
    "user \<Rightarrow> validated_data option \<Rightarrow> assigned \<Rightarrow> store \<Rightarrow> error + store \<times> response_data" where
  "post_create u serializer asg db =
     (case check_permissions (IsAdminOrReadOnly u Create) u of
        Inl e \<Rightarrow> Inl e
      | Inr ok \<Rightarrow>
          (case serializer of
             None \<Rightarrow> Inl ValidationError
           | Some vd \<Rightarrow>
               (case perform_create u asg vd of
                  Inl e \<Rightarrow> Inl e
                | Inr created_instance \<Rightarrow>
                    (let post_url = ''/posts/'' @ post_slug created_instance @ ''-''
                           @ str_nat (post_id created_instance) @ ''/''
                     in Inr (db\<lparr>posts := posts db @ [created_instance]\<rparr>,
                             [(''url'', post_url),
                              (''message'', ''Post created successfully.'')])))))"

text \<open>
  The serializer's \<open>save\<close> on an existing post: each validated field is set on the row.
\<close>

definition save_post :: "validated_data \<Rightarrow> post \<Rightarrow> post" where
  "save_post vd obj =
     obj\<lparr>post_title := str_field vd ''title'' (post_title obj),
         post_body := str_field vd ''body'' (post_body obj),
         is_published := bool_field vd ''is_published'' (is_published obj)\<rparr>"

text \<open>
  \<open>PostViewSet.update\<close>, which is also \<open>partial_update\<close>: \<open>patch\<close> tells which of the two
  actions the router set. The framework's \<open>update\<close> fetches the object, validates,
  saves; the override replaces the body of the response by the message.
\<close>

definition post_update ::
    "user \<Rightarrow> bool \<Rightarrow> nat \<Rightarrow> validated_data option \<Rightarrow> store \<Rightarrow> error + store \<times> response_data" where
  "post_update u patch pk serializer db =
     (let a = (if patch then PartialUpdate else Update) in
      case check_permissions (IsAdminOrReadOnly u a) u of
        Inl e \<Rightarrow> Inl e
      | Inr ok \<Rightarrow>
          (case get_object u a pk db of
             Inl e \<Rightarrow> Inl e
           | Inr obj \<Rightarrow>
               (case serializer of
                  None \<Rightarrow> Inl ValidationError
                | Some vd \<Rightarrow>
                    Inr (db\<lparr>posts := map (\<lambda>p. if post_id p = pk then save_post vd obj else p)
                                       (posts db)\<rparr>,
                         [(''message'', ''Post updated successfully.'')]))))"

text \<open>
  The framework's \<open>destroy\<close>, which the view set does not override: the object is
  fetched and its row deleted. What the deletion does to the comments of the post
  is decided in \<open>models.py\<close> and is left out.
\<close>

definition post_destroy :: "user \<Rightarrow> nat \<Rightarrow> store \<Rightarrow> error + store" where
  "post_destroy u pk db =
     (case check_permissions (IsAdminOrReadOnly u Destroy) u of
        Inl e \<Rightarrow> Inl e
      | Inr ok \<Rightarrow>
          (case get_object u Destroy pk db of
             Inl e \<Rightarrow> Inl e
           | Inr obj \<Rightarrow> Inr (db\<lparr>posts := filter (\<lambda>p. post_id p \<noteq> pk) (posts db)\<rparr>)))"

section \<open>Comment views\<close>

text \<open>The framework's \<open>permissions.IsAuthenticated\<close>.\<close>

definition IsAuthenticated :: "user \<Rightarrow> bool" where
  "IsAuthenticated u = is_authenticated u"

text \<open>
  Modelled from the spec: \<open>IsAuthorOrAdmin\<close> of \<open>permissions.py\<close>, which is not among the
  sources. Section 4.1: reading, updating and deleting a comment is permitted iff the
  caller is staff or the id of the comment's author is the caller's id. The note at
  the end of \<open>CommentDetailView\<close> says that the class is asked about the object.
\<close>

definition IsAuthorOrAdmin :: "user \<Rightarrow> comment \<Rightarrow> bool" where
  "IsAuthorOrAdmin u obj = (is_staff u \<or> user_id u = Some (comment_author obj))"

text \<open>
  Modelled from the spec: what \<open>CommentSerializer\<close> (\<open>serializers.py\<close>, not among the
  sources) stores for a new comment. Section 4.4: the author is the caller and
  \<open>is_approved\<close> is forced false regardless of the input. The post and the body are
  the validated ones, the primary key is the one the database assigns, and a comment
  without a post cannot be stored.
\<close>

definition serializer_create :: "nat \<Rightarrow> nat \<Rightarrow> validated_data \<Rightarrow> error + comment" where
  "serializer_create author new_pk vd =
     (case vd ''post'' of
        Some (VRef p) \<Rightarrow>
          Inr \<lparr>comment_id = new_pk, comment_post = p, comment_author = author,
               comment_body = str_field vd ''body'' [], is_approved = False\<rparr>
      | _ \<Rightarrow> Inl ServerError)"

text \<open>
  \<open>CommentCreateView.perform_create\<close>: \<open>serializer.save(author=self.request.user)\<close>.
  An anonymous caller is no user row, and saving it as author raises.
\<close>

definition comment_perform_create :: "user \<Rightarrow> nat \<Rightarrow> validated_data \<Rightarrow> error + comment" where
  "comment_perform_create u new_pk vd =
     (case user_id u of
        None \<Rightarrow> Inl ServerError
      | Some a \<Rightarrow> serializer_create a new_pk vd)"

text \<open>
  \<open>CommentCreateView\<close>, a \<open>CreateAPIView\<close>: permission of the view, validation,
  \<open>perform_create\<close>, and the new comment as the body of the response.
\<close>

definition comment_create ::
    "user \<Rightarrow> validated_data option \<Rightarrow> nat \<Rightarrow> store \<Rightarrow> error + store \<times> comment" where
  "comment_create u serializer new_pk db =
     (case check_permissions (IsAuthenticated u) u of
        Inl e \<Rightarrow> Inl e
      | Inr ok \<Rightarrow>
          (case serializer of
             None \<Rightarrow> Inl ValidationError
           | Some vd \<Rightarrow>
               (case comment_perform_create u new_pk vd of
                  Inl e \<Rightarrow> Inl e
                | Inr obj \<Rightarrow> Inr (db\<lparr>comments := comments db @ [obj]\<rparr>, obj))))"

text \<open>
  The framework's \<open>get_object\<close> on \<open>CommentDetailView\<close>, whose \<open>queryset\<close> is
  \<open>Comment.objects.all()\<close>: lookup by primary key among all comments, 404 when absent,
  then the object permission.
\<close>

definition comment_get_object :: "user \<Rightarrow> nat \<Rightarrow> store \<Rightarrow> error + comment" where
  "comment_get_object u pk db =
     (case find (\<lambda>c. comment_id c = pk) (comments db) of
        None \<Rightarrow> Inl NotFound
      | Some obj \<Rightarrow>
          (case check_permissions (IsAuthorOrAdmin u obj) u of
             Inl e \<Rightarrow> Inl e
           | Inr ok \<Rightarrow> Inr obj))"

text \<open>
  The serializer's \<open>save\<close> on an existing comment: each validated field is set on the row.
\<close>

definition save_comment :: "validated_data \<Rightarrow> comment \<Rightarrow> comment" where
  "save_comment vd obj =
     obj\<lparr>comment_post := ref_field vd ''post'' (comment_post obj),
         comment_body := str_field vd ''body'' (comment_body obj),
         is_approved := bool_field vd ''is_approved'' (is_approved obj)\<rparr>"

text \<open>\<open>CommentDetailView.perform_update\<close>.\<close>

definition perform_update :: "user \<Rightarrow> validated_data \<Rightarrow> comment \<Rightarrow> comment" where
  "perform_update u validated_data obj =
     (let validated_data' =
            (if \<not> is_staff u then
               (if validated_data ''is_approved'' \<noteq> None
                then validated_data(''is_approved'' := None)
                else validated_data)
             else validated_data)
      in save_comment validated_data' obj)"

text \<open>
  The handlers of \<open>CommentDetailView\<close>, a \<open>RetrieveUpdateDestroyAPIView\<close>: each fetches
  the object first; update then validates and calls \<open>perform_update\<close>; destroy deletes
  the row.
\<close>

definition comment_retrieve :: "user \<Rightarrow> nat \<Rightarrow> store \<Rightarrow> error + comment" where
  "comment_retrieve u pk db = comment_get_object u pk db"

definition comment_update ::
    "user \<Rightarrow> nat \<Rightarrow> validated_data option \<Rightarrow> store \<Rightarrow> error + store \<times> comment" where
  "comment_update u pk serializer db =
     (case comment_get_object u pk db of
        Inl e \<Rightarrow> Inl e
      | Inr obj \<Rightarrow>
          (case serializer of
             None \<Rightarrow> Inl ValidationError
           | Some vd \<Rightarrow>
               Inr (db\<lparr>comments := map (\<lambda>c. if comment_id c = pk then perform_update u vd obj else c)
                                      (comments db)\<rparr>,
                    perform_update u vd obj)))"

definition comment_destroy :: "user \<Rightarrow> nat \<Rightarrow> store \<Rightarrow> error + store" where
  "comment_destroy u pk db =
     (case comment_get_object u pk db of
        Inl e \<Rightarrow> Inl e
      | Inr obj \<Rightarrow> Inr (db\<lparr>comments := filter (\<lambda>c. comment_id c \<noteq> pk) (comments db)\<rparr>))"

section \<open>Orders on the list of posts\<close>

text \<open>
  The order the spec's words describe: newer posts first, and of two posts with the
  same creation time the one with the larger identifier first.
\<close>

definition newest_first_ties_by_id :: "post \<Rightarrow> post \<Rightarrow> bool" where
  "newest_first_ties_by_id p q =
     (created_at q < created_at p \<or> (created_at p = created_at q \<and> post_id q \<le> post_id p))"

text \<open>The order by creation time alone: no later post after an earlier one.\<close>

definition newest_first :: "post \<Rightarrow> post \<Rightarrow> bool" where
  "newest_first p q = (created_at q \<le> created_at p)"

section \<open>Auxiliary facts about lookups\<close>

lemma find_filter_None:
  "\<forall>p \<in> set xs. f p = k \<longrightarrow> \<not> P p \<Longrightarrow> find (\<lambda>p. f p = k) (filter P xs) = None"
  by (induction xs) auto

lemma distinct_map_unique:
  "distinct (map f xs) \<Longrightarrow> x \<in> set xs \<Longrightarrow> y \<in> set xs \<Longrightarrow> f y = f x \<Longrightarrow> y = x"
  by (meson distinct_map inj_onD)

lemma find_Some_set:
  "find Q xs = Some x \<Longrightarrow> x \<in> set xs \<and> Q x"
  by (induction xs) (auto split: if_splits)

lemma find_distinct_Some:
  "distinct (map f xs) \<Longrightarrow> x \<in> set xs \<Longrightarrow> find (\<lambda>y. f y = f x) xs = Some x"
  by (induction xs) (auto simp: rev_image_eqI)

lemma comment_get_object_present:
  assumes "distinct (map comment_id (comments db))" and "C \<in> set (comments db)"
  shows "comment_get_object u (comment_id C) db =
           (if is_staff u \<or> user_id u = Some (comment_author C) then Inr C
            else Inl (permission_denied u))"
  using find_distinct_Some [OF assms]
  by (simp add: comment_get_object_def check_permissions_def IsAuthorOrAdmin_def)

lemma anonymous_not_author:
  "\<not> is_authenticated u \<Longrightarrow> \<not> (is_staff u \<or> user_id u = Some a)"
  by (cases u) auto

section \<open>Visibility of posts\<close>

text \<open>
  Claim C1. For a staff caller the posts that list and retrieve select from are all
  posts of the store, published or not; for any other caller, anonymous or
  authenticated, they are exactly the published posts, whoever wrote them. The list
  holds the same rows as the lookup set of retrieve, each as often, in another order.
\<close>

theorem get_queryset_visibility:
  "get_queryset u Retrieve objects = (if is_staff u then objects else filter is_published objects)
   \<and> mset (get_queryset u List objects) = mset (if is_staff u then objects else filter is_published objects)"
  by (simp add: get_queryset_def order_by_created_at_desc_def)

section \<open>Retrieving an unpublished post\<close>

text \<open>
  Claim C2. Primary keys are unique in the table. For a caller who is not staff and
  an unpublished post P of the store, the author of P included, retrieving P by its
  key answers NotFound, not a permission error: the lookup runs on the filtered
  rows, where P is absent, and the permission on the object is only asked about a
  row that was found.
\<close>

theorem retrieve_unpublished_not_found:
  assumes "distinct (map post_id (posts db))"
      and "P \<in> set (posts db)"
      and "\<not> is_published P"
      and "\<not> is_staff u"
  shows "post_retrieve u (post_id P) db = Inl NotFound"
proof -
  have "\<forall>p \<in> set (posts db). post_id p = post_id P \<longrightarrow> \<not> is_published p"
    using assms(1-3) distinct_map_unique by metis
  then have "find (\<lambda>p. post_id p = post_id P) (filter is_published (posts db)) = None"
    by (rule find_filter_None)
  then have "get_object u Retrieve (post_id P) db = Inl NotFound"
    using assms(4) by (simp add: get_object_def get_queryset_def)
  then show ?thesis
    by (simp add: post_retrieve_def check_permissions_def IsAdminOrReadOnly_def)
qed

text \<open>
  The author of an unpublished post, who is not staff, asks for it by its key.
\<close>

theorem retrieve_unpublished_not_found_witness:
  "post_retrieve (User 7 False) 3
     \<lparr>posts = [\<lparr>post_id = 3, post_slug = ''draft'', post_title = ''Draft'', post_body = ''text'',
                post_author = 7, is_published = False, created_at = 10\<rparr>],
      comments = []\<rparr> = Inl NotFound"
  using retrieve_unpublished_not_found
    [of "\<lparr>posts = [\<lparr>post_id = 3, post_slug = ''draft'', post_title = ''Draft'', post_body = ''text'',
                post_author = 7, is_published = False, created_at = 10\<rparr>],
      comments = []\<rparr>"
        "\<lparr>post_id = 3, post_slug = ''draft'', post_title = ''Draft'', post_body = ''text'',
                post_author = 7, is_published = False, created_at = 10\<rparr>"
        "User 7 False"]
  by simp

section \<open>Approval of comments\<close>

lemma perform_update_non_staff:
  "\<not> is_staff u \<Longrightarrow>
     is_approved (perform_update u vd obj) = is_approved obj
     \<and> comment_body (perform_update u vd obj) = str_field vd ''body'' (comment_body obj)
     \<and> comment_post (perform_update u vd obj) = ref_field vd ''post'' (comment_post obj)"
  by (simp add: perform_update_def save_comment_def bool_field_def str_field_def ref_field_def)

lemma perform_update_staff:
  "is_staff u \<Longrightarrow> perform_update u vd obj = save_comment vd obj"
  by (simp add: perform_update_def)

text \<open>
  Claim C3. When a caller who is not staff updates a comment, an \<open>is_approved\<close> value
  among the validated fields is dropped before saving and the update goes through:
  the saved comment keeps its \<open>is_approved\<close> and takes the other submitted fields, the
  body among them. So an update that changes \<open>is_approved\<close> is one by a staff caller,
  and a staff caller can set the flag to either value. Through the view, the comment
  that a non-staff update stores and returns has the \<open>is_approved\<close> of the stored row
  it replaces.
\<close>

theorem perform_update_is_approved:
  "(\<not> is_staff u \<longrightarrow>
      is_approved (perform_update u vd obj) = is_approved obj
      \<and> comment_body (perform_update u vd obj) = str_field vd ''body'' (comment_body obj)
      \<and> comment_post (perform_update u vd obj) = ref_field vd ''post'' (comment_post obj))
   \<and> (is_approved (perform_update u vd obj) \<noteq> is_approved obj \<longrightarrow> is_staff u)
   \<and> (is_staff u \<longrightarrow>
        is_approved (perform_update u (vd(''is_approved'' \<mapsto> VBool b)) obj) = b)
   \<and> (\<not> is_staff u \<longrightarrow> comment_update u pk (Some vd) db = Inr (db', obj') \<longrightarrow>
        (\<exists>old \<in> set (comments db). comment_id old = pk
           \<and> obj' = perform_update u vd old
           \<and> is_approved obj' = is_approved old
           \<and> comment_body obj' = str_field vd ''body'' (comment_body old)))"
proof -
  have a: "\<not> is_staff u \<longrightarrow>
      is_approved (perform_update u vd obj) = is_approved obj
      \<and> comment_body (perform_update u vd obj) = str_field vd ''body'' (comment_body obj)
      \<and> comment_post (perform_update u vd obj) = ref_field vd ''post'' (comment_post obj)"
    using perform_update_non_staff by blast
  have b: "is_approved (perform_update u vd obj) \<noteq> is_approved obj \<longrightarrow> is_staff u"
    using perform_update_non_staff by blast
  have c: "is_staff u \<longrightarrow>
        is_approved (perform_update u (vd(''is_approved'' \<mapsto> VBool b)) obj) = b"
    by (simp add: perform_update_staff save_comment_def bool_field_def)
  have d: "\<not> is_staff u \<longrightarrow> comment_update u pk (Some vd) db = Inr (db', obj') \<longrightarrow>
        (\<exists>old \<in> set (comments db). comment_id old = pk
           \<and> obj' = perform_update u vd old
           \<and> is_approved obj' = is_approved old
           \<and> comment_body obj' = str_field vd ''body'' (comment_body old))"
  proof (intro impI)
    assume ns: "\<not> is_staff u" and upd: "comment_update u pk (Some vd) db = Inr (db', obj')"
    from upd obtain old where f: "find (\<lambda>c. comment_id c = pk) (comments db) = Some old"
      and o: "obj' = perform_update u vd old"
      by (auto simp: comment_update_def comment_get_object_def
               split: option.splits sum.splits)
    from f have "old \<in> set (comments db) \<and> comment_id old = pk"
      by (rule find_Some_set)
    with o perform_update_non_staff [OF ns, of vd old] show
      "\<exists>old \<in> set (comments db). comment_id old = pk
           \<and> obj' = perform_update u vd old
           \<and> is_approved obj' = is_approved old
           \<and> comment_body obj' = str_field vd ''body'' (comment_body old)"
      by auto
  qed
  from a b c d show ?thesis by blast
qed

text \<open>
  The owner of an unapproved comment, not staff, sends \<open>is_approved\<close> true and a new
  body: the body is stored, the flag stays false. A staff caller sends the same flag
  and the comment is approved.
\<close>

theorem perform_update_is_approved_witness:
  "is_approved (perform_update (User 7 False)
       [''is_approved'' \<mapsto> VBool True, ''body'' \<mapsto> VStr ''x'']
       \<lparr>comment_id = 4, comment_post = 1, comment_author = 7, comment_body = ''old'',
        is_approved = False\<rparr>) = False
   \<and> comment_body (perform_update (User 7 False)
       [''is_approved'' \<mapsto> VBool True, ''body'' \<mapsto> VStr ''x'']
       \<lparr>comment_id = 4, comment_post = 1, comment_author = 7, comment_body = ''old'',
        is_approved = False\<rparr>) = ''x''
   \<and> is_approved (perform_update (User 1 True)
       [''is_approved'' \<mapsto> VBool True]
       \<lparr>comment_id = 4, comment_post = 1, comment_author = 7, comment_body = ''old'',
        is_approved = False\<rparr>) = True"
  using perform_update_is_approved
      [of "User 7 False" "[''is_approved'' \<mapsto> VBool True, ''body'' \<mapsto> VStr ''x'']"
          "\<lparr>comment_id = 4, comment_post = 1, comment_author = 7, comment_body = ''old'',
            is_approved = False\<rparr>"]
    perform_update_is_approved
      [of "User 1 True" "Map.empty"
          "\<lparr>comment_id = 4, comment_post = 1, comment_author = 7, comment_body = ''old'',
            is_approved = False\<rparr>" True]
  by (simp add: str_field_def)

section \<open>Access to a single comment\<close>

text \<open>
  Claim C4. Primary keys are unique in the table. For a comment C of the store,
  retrieve, update (with data that validates) and delete go through when the caller is
  staff or the caller's id is the id of C's author, and are refused with a permission
  error for every other caller; a caller who is not authenticated is among the
  refused.
\<close>

theorem comment_detail_permitted_iff:
  assumes "distinct (map comment_id (comments db))" and "C \<in> set (comments db)"
  shows "comment_retrieve u (comment_id C) db =
           (if is_staff u \<or> user_id u = Some (comment_author C) then Inr C
            else Inl (permission_denied u))
       \<and> comment_update u (comment_id C) (Some vd) db =
           (if is_staff u \<or> user_id u = Some (comment_author C)
            then Inr (db\<lparr>comments := map (\<lambda>c. if comment_id c = comment_id C
                                                 then perform_update u vd C else c)
                                           (comments db)\<rparr>,
                      perform_update u vd C)
            else Inl (permission_denied u))
       \<and> comment_destroy u (comment_id C) db =
           (if is_staff u \<or> user_id u = Some (comment_author C)
            then Inr (db\<lparr>comments := filter (\<lambda>c. comment_id c \<noteq> comment_id C) (comments db)\<rparr>)
            else Inl (permission_denied u))
       \<and> (\<not> is_authenticated u \<longrightarrow>
            comment_retrieve u (comment_id C) db = Inl NotAuthenticated
            \<and> comment_update u (comment_id C) (Some vd) db = Inl NotAuthenticated
            \<and> comment_destroy u (comment_id C) db = Inl NotAuthenticated)"
proof -
  note g = comment_get_object_present [OF assms, of u]
  have r: "comment_retrieve u (comment_id C) db =
           (if is_staff u \<or> user_id u = Some (comment_author C) then Inr C
            else Inl (permission_denied u))"
    by (simp add: comment_retrieve_def g)
  have w: "comment_update u (comment_id C) (Some vd) db =
           (if is_staff u \<or> user_id u = Some (comment_author C)
            then Inr (db\<lparr>comments := map (\<lambda>c. if comment_id c = comment_id C
                                                 then perform_update u vd C else c)
                                           (comments db)\<rparr>,
                      perform_update u vd C)
            else Inl (permission_denied u))"
    by (simp add: comment_update_def g)
  have d: "comment_destroy u (comment_id C) db =
           (if is_staff u \<or> user_id u = Some (comment_author C)
            then Inr (db\<lparr>comments := filter (\<lambda>c. comment_id c \<noteq> comment_id C) (comments db)\<rparr>)
            else Inl (permission_denied u))"
    by (simp add: comment_destroy_def g)
  have n: "\<not> is_authenticated u \<longrightarrow>
            comment_retrieve u (comment_id C) db = Inl NotAuthenticated
            \<and> comment_update u (comment_id C) (Some vd) db = Inl NotAuthenticated
            \<and> comment_destroy u (comment_id C) db = Inl NotAuthenticated"
  proof
    assume na: "\<not> is_authenticated u"
    then have "\<not> (is_staff u \<or> user_id u = Some (comment_author C))"
      by (rule anonymous_not_author)
    with na r w d show "comment_retrieve u (comment_id C) db = Inl NotAuthenticated
            \<and> comment_update u (comment_id C) (Some vd) db = Inl NotAuthenticated
            \<and> comment_destroy u (comment_id C) db = Inl NotAuthenticated"
      by (simp add: permission_denied_def)
  qed
  from r w d n show ?thesis by blast
qed

text \<open>
  A comment of user 7: user 7 reads it, user 8, who is not staff, is refused with
  403, a staff caller deletes it, and an anonymous caller is refused with 401.
\<close>

theorem comment_detail_permitted_iff_witness:
  "comment_retrieve (User 7 False) 4
     \<lparr>posts = [], comments = [\<lparr>comment_id = 4, comment_post = 1, comment_author = 7,
                               comment_body = ''hi'', is_approved = False\<rparr>]\<rparr>
     = Inr \<lparr>comment_id = 4, comment_post = 1, comment_author = 7,
            comment_body = ''hi'', is_approved = False\<rparr>
   \<and> comment_retrieve (User 8 False) 4
     \<lparr>posts = [], comments = [\<lparr>comment_id = 4, comment_post = 1, comment_author = 7,
                               comment_body = ''hi'', is_approved = False\<rparr>]\<rparr>
     = Inl PermissionDenied
   \<and> comment_destroy (User 1 True) 4
     \<lparr>posts = [], comments = [\<lparr>comment_id = 4, comment_post = 1, comment_author = 7,
                               comment_body = ''hi'', is_approved = False\<rparr>]\<rparr>
     = Inr \<lparr>posts = [], comments = []\<rparr>
   \<and> comment_update AnonymousUser 4 (Some [''body'' \<mapsto> VStr ''x''])
     \<lparr>posts = [], comments = [\<lparr>comment_id = 4, comment_post = 1, comment_author = 7,
                               comment_body = ''hi'', is_approved = False\<rparr>]\<rparr>
     = Inl NotAuthenticated"
  using
    comment_detail_permitted_iff
      [of "\<lparr>posts = [], comments = [\<lparr>comment_id = 4, comment_post = 1, comment_author = 7,
                               comment_body = ''hi'', is_approved = False\<rparr>]\<rparr>"
          "\<lparr>comment_id = 4, comment_post = 1, comment_author = 7,
            comment_body = ''hi'', is_approved = False\<rparr>" "User 7 False" "Map.empty"]
    comment_detail_permitted_iff
      [of "\<lparr>posts = [], comments = [\<lparr>comment_id = 4, comment_post = 1, comment_author = 7,
                               comment_body = ''hi'', is_approved = False\<rparr>]\<rparr>"
          "\<lparr>comment_id = 4, comment_post = 1, comment_author = 7,
            comment_body = ''hi'', is_approved = False\<rparr>" "User 8 False" "Map.empty"]
    comment_detail_permitted_iff
      [of "\<lparr>posts = [], comments = [\<lparr>comment_id = 4, comment_post = 1, comment_author = 7,
                               comment_body = ''hi'', is_approved = False\<rparr>]\<rparr>"
          "\<lparr>comment_id = 4, comment_post = 1, comment_author = 7,
            comment_body = ''hi'', is_approved = False\<rparr>" "User 1 True" "Map.empty"]
    comment_detail_permitted_iff
      [of "\<lparr>posts = [], comments = [\<lparr>comment_id = 4, comment_post = 1, comment_author = 7,
                               comment_body = ''hi'', is_approved = False\<rparr>]\<rparr>"
          "\<lparr>comment_id = 4, comment_post = 1, comment_author = 7,
            comment_body = ''hi'', is_approved = False\<rparr>" "AnonymousUser"
          "[''body'' \<mapsto> VStr ''x'']"]
  by (simp add: permission_denied_def)

section \<open>Creating a post\<close>

text \<open>
  Claim C5. When the creation of a post succeeds, the store has one more post,
  whose author is the caller, and the body of the response is exactly the two
  entries \<open>url\<close> and \<open>message\<close>: the url is \<open>/posts/\<close>, the slug of the new post, a
  hyphen, its id in decimal and a slash; the message is the fixed text. The fields of
  the post are not in the response.
\<close>

theorem post_create_response:
  assumes "post_create u serializer asg db = Inr (db', data)"
  shows "\<exists>created. posts db' = posts db @ [created]
           \<and> comments db' = comments db
           \<and> user_id u = Some (post_author created)
           \<and> data = [(''url'', ''/posts/'' @ post_slug created @ ''-''
                               @ str_nat (post_id created) @ ''/''),
                      (''message'', ''Post created successfully.'')]"
  using assms
  by (auto simp: post_create_def perform_create_def Let_def
           split: sum.splits option.splits)

text \<open>
  User 7, not staff, posts a title and a body; the new row gets id 12 and the slug
  \<open>t\<close>.
\<close>

theorem post_create_response_witness:
  "post_create (User 7 False) (Some [''title'' \<mapsto> VStr ''T'', ''body'' \<mapsto> VStr ''B''])
       \<lparr>new_id = 12, new_slug = ''t'', now = 100\<rparr> \<lparr>posts = [], comments = []\<rparr>
     = Inr (\<lparr>posts = [\<lparr>post_id = 12, post_slug = ''t'', post_title = ''T'', post_body = ''B'',
                       post_author = 7, is_published = False, created_at = 100\<rparr>],
             comments = []\<rparr>,
            [(''url'', ''/posts/t-12/''), (''message'', ''Post created successfully.'')])
   \<and> (\<exists>created. [\<lparr>post_id = 12, post_slug = ''t'', post_title = ''T'', post_body = ''B'',
                       post_author = 7, is_published = False, created_at = 100\<rparr>] = [] @ [created]
         \<and> user_id (User 7 False) = Some (post_author created)
         \<and> [(''url'', ''/posts/t-12/''), (''message'', ''Post created successfully.'')]
             = [(''url'', ''/posts/'' @ post_slug created @ ''-''
                               @ str_nat (post_id created) @ ''/''),
                      (''message'', ''Post created successfully.'')])"
proof -
  have run: "post_create (User 7 False) (Some [''title'' \<mapsto> VStr ''T'', ''body'' \<mapsto> VStr ''B''])
       \<lparr>new_id = 12, new_slug = ''t'', now = 100\<rparr> \<lparr>posts = [], comments = []\<rparr>
     = Inr (\<lparr>posts = [\<lparr>post_id = 12, post_slug = ''t'', post_title = ''T'', post_body = ''B'',
                       post_author = 7, is_published = False, created_at = 100\<rparr>],
             comments = []\<rparr>,
            [(''url'', ''/posts/t-12/''), (''message'', ''Post created successfully.'')])"
    by (simp add: post_create_def perform_create_def check_permissions_def IsAdminOrReadOnly_def
          str_field_def bool_field_def str_nat.simps [of 12] str_nat.simps [of "Suc 0"] digit_char_def)
  from post_create_response [OF run] run show ?thesis by simp
qed

section \<open>Updating and deleting a post\<close>

lemma write_needs_staff:
  "a \<noteq> List \<Longrightarrow> a \<noteq> Retrieve \<Longrightarrow> a \<noteq> Create \<Longrightarrow> IsAdminOrReadOnly u a = is_staff u"
  by (simp add: IsAdminOrReadOnly_def)

text \<open>
  Claim C6. An update of a post, as PUT or as PATCH, and a deletion are refused
  with a permission error to every caller who is not staff, for any post and any
  data, the caller's own posts included. An update that succeeds is therefore one by
  a staff caller, and the body of its response is the one entry \<open>message\<close> with the
  fixed text, not the post.
\<close>

theorem post_update_staff_only:
  "(\<not> is_staff u \<longrightarrow>
      post_update u patch pk serializer db = Inl (permission_denied u)
      \<and> post_destroy u pk db = Inl (permission_denied u))
   \<and> (post_update u patch pk serializer db = Inr (db', data) \<longrightarrow>
        is_staff u \<and> data = [(''message'', ''Post updated successfully.'')])
   \<and> (post_destroy u pk db = Inr db'' \<longrightarrow> is_staff u)"
proof -
  have a: "\<not> is_staff u \<longrightarrow>
      post_update u patch pk serializer db = Inl (permission_denied u)
      \<and> post_destroy u pk db = Inl (permission_denied u)"
    by (simp add: post_update_def post_destroy_def write_needs_staff check_permissions_def)
  have b: "post_update u patch pk serializer db = Inr (db', data) \<longrightarrow>
        data = [(''message'', ''Post updated successfully.'')]"
    by (auto simp: post_update_def Let_def split: sum.splits option.splits)
  from a b show ?thesis by auto
qed

text \<open>
  User 7, not staff, sends a PATCH to a published post of their own and is refused
  with 403; a staff caller sends the same PATCH, and the response is the message.
\<close>

theorem post_update_staff_only_witness:
  "post_update (User 7 False) True 3 (Some [''title'' \<mapsto> VStr ''New''])
     \<lparr>posts = [\<lparr>post_id = 3, post_slug = ''p'', post_title = ''Old'', post_body = ''text'',
                post_author = 7, is_published = True, created_at = 10\<rparr>],
      comments = []\<rparr> = Inl PermissionDenied
   \<and> post_destroy (User 7 False) 3
     \<lparr>posts = [\<lparr>post_id = 3, post_slug = ''p'', post_title = ''Old'', post_body = ''text'',
                post_author = 7, is_published = True, created_at = 10\<rparr>],
      comments = []\<rparr> = Inl PermissionDenied
   \<and> post_update (User 1 True) True 3 (Some [''title'' \<mapsto> VStr ''New''])
     \<lparr>posts = [\<lparr>post_id = 3, post_slug = ''p'', post_title = ''Old'', post_body = ''text'',
                post_author = 7, is_published = True, created_at = 10\<rparr>],
      comments = []\<rparr>
     = Inr (\<lparr>posts = [\<lparr>post_id = 3, post_slug = ''p'', post_title = ''New'', post_body = ''text'',
                post_author = 7, is_published = True, created_at = 10\<rparr>],
      comments = []\<rparr>, [(''message'', ''Post updated successfully.'')])"
proof -
  have run: "post_update (User 1 True) True 3 (Some [''title'' \<mapsto> VStr ''New''])
     \<lparr>posts = [\<lparr>post_id = 3, post_slug = ''p'', post_title = ''Old'', post_body = ''text'',
                post_author = 7, is_published = True, created_at = 10\<rparr>],
      comments = []\<rparr>
     = Inr (\<lparr>posts = [\<lparr>post_id = 3, post_slug = ''p'', post_title = ''New'', post_body = ''text'',
                post_author = 7, is_published = True, created_at = 10\<rparr>],
      comments = []\<rparr>, [(''message'', ''Post updated successfully.'')])"
    by (simp add: post_update_def get_object_def get_queryset_def check_permissions_def
          IsAdminOrReadOnly_def save_post_def str_field_def bool_field_def)
  show ?thesis
    using run
      post_update_staff_only
        [of "User 7 False" True 3 "Some [''title'' \<mapsto> VStr ''New'']"
          "\<lparr>posts = [\<lparr>post_id = 3, post_slug = ''p'', post_title = ''Old'', post_body = ''text'',
                post_author = 7, is_published = True, created_at = 10\<rparr>],
            comments = []\<rparr>"]
      post_update_staff_only
        [of "User 1 True" True 3 "Some [''title'' \<mapsto> VStr ''New'']"
          "\<lparr>posts = [\<lparr>post_id = 3, post_slug = ''p'', post_title = ''Old'', post_body = ''text'',
                post_author = 7, is_published = True, created_at = 10\<rparr>],
            comments = []\<rparr>"
          "\<lparr>posts = [\<lparr>post_id = 3, post_slug = ''p'', post_title = ''New'', post_body = ''text'',
                post_author = 7, is_published = True, created_at = 10\<rparr>],
            comments = []\<rparr>"
          "[(''message'', ''Post updated successfully.'')]"]
    by (simp add: permission_denied_def)
qed

section \<open>Creating a comment\<close>

lemma comment_create_anonymous:
  "\<not> is_authenticated u \<Longrightarrow> comment_create u serializer new_pk db = Inl NotAuthenticated"
  by (simp add: comment_create_def check_permissions_def IsAuthenticated_def
        permission_denied_def)

lemma comment_create_authenticated:
  "is_authenticated u \<Longrightarrow>
     comment_create u serializer new_pk db =
       (case serializer of
          None \<Rightarrow> Inl ValidationError
        | Some vd \<Rightarrow>
            (case comment_perform_create u new_pk vd of
               Inl e \<Rightarrow> Inl e
             | Inr obj \<Rightarrow> Inr (db\<lparr>comments := comments db @ [obj]\<rparr>, obj)))"
  by (simp add: comment_create_def check_permissions_def IsAuthenticated_def)

lemma comment_perform_create_Inr:
  "comment_perform_create u new_pk vd = Inr obj \<Longrightarrow>
     user_id u = Some (comment_author obj) \<and> is_approved obj = False
     \<and> comment_id obj = new_pk \<and> vd ''post'' = Some (VRef (comment_post obj))"
  by (auto simp: comment_perform_create_def serializer_create_def
           split: option.splits field_value.splits)

text \<open>
  Claim C7. The creation of a comment is refused to a caller who is not
  authenticated, and an authenticated caller who sends valid data for a post gets
  the comment stored. Every comment that a creation stores has the caller as its
  author and \<open>is_approved\<close> false, whatever \<open>is_approved\<close> the input carries.
\<close>

theorem comment_create_author_unapproved:
  "(\<not> is_authenticated u \<longrightarrow> comment_create u serializer new_pk db = Inl NotAuthenticated)
   \<and> (is_authenticated u \<longrightarrow> vd ''post'' = Some (VRef p) \<longrightarrow>
        (\<exists>db' obj. comment_create u (Some vd) new_pk db = Inr (db', obj)))
   \<and> (comment_create u serializer new_pk db = Inr (db', obj) \<longrightarrow>
        is_authenticated u
        \<and> user_id u = Some (comment_author obj)
        \<and> is_approved obj = False
        \<and> comments db' = comments db @ [obj])"
proof -
  have a: "\<not> is_authenticated u \<longrightarrow> comment_create u serializer new_pk db = Inl NotAuthenticated"
    using comment_create_anonymous by blast
  have b: "is_authenticated u \<longrightarrow> vd ''post'' = Some (VRef p) \<longrightarrow>
        (\<exists>db' obj. comment_create u (Some vd) new_pk db = Inr (db', obj))"
    by (cases u)
       (simp_all add: comment_create_authenticated comment_perform_create_def
          serializer_create_def)
  have c: "comment_create u serializer new_pk db = Inr (db', obj) \<longrightarrow>
        is_authenticated u
        \<and> user_id u = Some (comment_author obj)
        \<and> is_approved obj = False
        \<and> comments db' = comments db @ [obj]"
  proof
    assume run: "comment_create u serializer new_pk db = Inr (db', obj)"
    have au: "is_authenticated u"
    proof (rule ccontr)
      assume "\<not> is_authenticated u"
      from comment_create_anonymous [OF this, of serializer new_pk db] run show False by simp
    qed
    from run obtain vd' where pc: "comment_perform_create u new_pk vd' = Inr obj"
      and st: "db' = db\<lparr>comments := comments db @ [obj]\<rparr>"
      by (auto simp: comment_create_authenticated [OF au] split: option.splits sum.splits)
    from comment_perform_create_Inr [OF pc] au st
    show "is_authenticated u
        \<and> user_id u = Some (comment_author obj)
        \<and> is_approved obj = False
        \<and> comments db' = comments db @ [obj]"
      by simp
  qed
  from a b c show ?thesis by blast
qed

text \<open>
  User 7, not staff, sends \<open>is_approved\<close> true with a new comment on post 1: the
  comment is stored with author 7 and not approved. An anonymous caller is refused.
\<close>

theorem comment_create_author_unapproved_witness:
  "comment_create (User 7 False)
       (Some [''post'' \<mapsto> VRef 1, ''body'' \<mapsto> VStr ''hi'', ''is_approved'' \<mapsto> VBool True]) 5
       \<lparr>posts = [], comments = []\<rparr>
     = Inr (\<lparr>posts = [],
             comments = [\<lparr>comment_id = 5, comment_post = 1, comment_author = 7,
                          comment_body = ''hi'', is_approved = False\<rparr>]\<rparr>,
            \<lparr>comment_id = 5, comment_post = 1, comment_author = 7,
             comment_body = ''hi'', is_approved = False\<rparr>)
   \<and> comment_create AnonymousUser
       (Some [''post'' \<mapsto> VRef 1, ''body'' \<mapsto> VStr ''hi'']) 5
       \<lparr>posts = [], comments = []\<rparr> = Inl NotAuthenticated"
proof -
  have run: "comment_create (User 7 False)
       (Some [''post'' \<mapsto> VRef 1, ''body'' \<mapsto> VStr ''hi'', ''is_approved'' \<mapsto> VBool True]) 5
       \<lparr>posts = [], comments = []\<rparr>
     = Inr (\<lparr>posts = [],
             comments = [\<lparr>comment_id = 5, comment_post = 1, comment_author = 7,
                          comment_body = ''hi'', is_approved = False\<rparr>]\<rparr>,
            \<lparr>comment_id = 5, comment_post = 1, comment_author = 7,
             comment_body = ''hi'', is_approved = False\<rparr>)"
    by (simp add: comment_create_def comment_perform_create_def serializer_create_def
          check_permissions_def IsAuthenticated_def str_field_def)
  show ?thesis
    using run
      comment_create_author_unapproved
        [of "User 7 False"
          "Some [''post'' \<mapsto> VRef 1, ''body'' \<mapsto> VStr ''hi'', ''is_approved'' \<mapsto> VBool True]"
          5 "\<lparr>posts = [], comments = []\<rparr>"
          "[''post'' \<mapsto> VRef 1, ''body'' \<mapsto> VStr ''hi'', ''is_approved'' \<mapsto> VBool True]" 1
          "\<lparr>posts = [],
             comments = [\<lparr>comment_id = 5, comment_post = 1, comment_author = 7,
                          comment_body = ''hi'', is_approved = False\<rparr>]\<rparr>"
          "\<lparr>comment_id = 5, comment_post = 1, comment_author = 7,
             comment_body = ''hi'', is_approved = False\<rparr>"]
      comment_create_author_unapproved
        [of AnonymousUser "Some [''post'' \<mapsto> VRef 1, ''body'' \<mapsto> VStr ''hi'']"
          5 "\<lparr>posts = [], comments = []\<rparr>"]
    by simp
qed

section \<open>Order of the list\<close>

lemma sorted_wrt_newest_first:
  "sorted_wrt newest_first (order_by_created_at_desc queryset)"
proof -
  have "sorted (map (\<lambda>p. - created_at p) (sort_key (\<lambda>p. - created_at p) queryset))"
    by (rule sorted_sort_key)
  moreover have "newest_first = (\<lambda>p q. created_at q \<le> created_at p)"
    by (intro ext) (simp add: newest_first_def)
  ultimately show ?thesis
    by (simp add: order_by_created_at_desc_def sorted_map)
qed

text \<open>
  Claim C8, as stated, fails: two published posts created at the same time, which
  the store yields with id 1 before id 2, are listed with id 1 before id 2. The
  query orders by creation time only.
\<close>

theorem list_ties_not_by_id:
  "\<not> sorted_wrt newest_first_ties_by_id
        (get_queryset AnonymousUser List
           [\<lparr>post_id = 1, post_slug = ''a'', post_title = ''A'', post_body = ''text'',
             post_author = 7, is_published = True, created_at = 10\<rparr>,
            \<lparr>post_id = 2, post_slug = ''b'', post_title = ''B'', post_body = ''text'',
             post_author = 7, is_published = True, created_at = 10\<rparr>])"
  by (simp add: get_queryset_def order_by_created_at_desc_def newest_first_ties_by_id_def)

text \<open>
  Claim C8, amended. For every caller the list holds the posts visible to the
  caller, each once for each row, ordered by creation time descending: no post
  comes after a post created earlier. Nothing is said about the order of posts
  created at the same time.
\<close>

theorem list_newest_first:
  "sorted_wrt newest_first (get_queryset u List objects)
   \<and> mset (get_queryset u List objects)
       = mset (if is_staff u then objects else filter is_published objects)"
  by (simp add: get_queryset_def sorted_wrt_newest_first)
     (simp add: order_by_created_at_desc_def)

section \<open>Comments in the detail of a post\<close>

text \<open>
  Claim C9. When a caller retrieves a post, the response is the detail of a post
  of the store with the requested key, and its nested comments are all comments of
  the store on that post, in the order of the store: approved or not, by any author,
  and the same for every caller who gets the post.
\<close>

theorem post_retrieve_all_comments:
  assumes "post_retrieve u pk db = Inr r"
  shows "\<exists>p \<in> set (posts db). post_id p = pk
           \<and> r = Detail p (filter (\<lambda>c. comment_post c = pk) (comments db))"
proof -
  from assms obtain p where f: "find (\<lambda>p. post_id p = pk) (get_queryset u Retrieve (posts db)) = Some p"
    and r: "r = Detail p (comment_set db p)"
    by (auto simp: post_retrieve_def get_object_def get_serializer_class_def serializer_data_def
             split: sum.splits option.splits)
  from f have "p \<in> set (get_queryset u Retrieve (posts db)) \<and> post_id p = pk"
    by (rule find_Some_set)
  then have "p \<in> set (posts db) \<and> post_id p = pk"
    by (auto simp: get_queryset_def split: if_splits)
  with r show ?thesis
    by (auto simp: comment_set_def)
qed

text \<open>
  An anonymous caller retrieves a published post that has an approved comment by
  its author and an unapproved comment by another user; a comment on another post is
  not in the answer.
\<close>

theorem post_retrieve_all_comments_witness:
  "post_retrieve AnonymousUser 1
     \<lparr>posts = [\<lparr>post_id = 1, post_slug = ''p'', post_title = ''P'', post_body = ''text'',
                post_author = 7, is_published = True, created_at = 10\<rparr>],
      comments = [\<lparr>comment_id = 4, comment_post = 1, comment_author = 7,
                   comment_body = ''a'', is_approved = True\<rparr>,
                  \<lparr>comment_id = 5, comment_post = 2, comment_author = 8,
                   comment_body = ''b'', is_approved = True\<rparr>,
                  \<lparr>comment_id = 6, comment_post = 1, comment_author = 8,
                   comment_body = ''c'', is_approved = False\<rparr>]\<rparr>
   = Inr (Detail \<lparr>post_id = 1, post_slug = ''p'', post_title = ''P'', post_body = ''text'',
                  post_author = 7, is_published = True, created_at = 10\<rparr>
            [\<lparr>comment_id = 4, comment_post = 1, comment_author = 7,
              comment_body = ''a'', is_approved = True\<rparr>,
             \<lparr>comment_id = 6, comment_post = 1, comment_author = 8,
              comment_body = ''c'', is_approved = False\<rparr>])"
proof -
  have "\<exists>r. post_retrieve AnonymousUser 1
     \<lparr>posts = [\<lparr>post_id = 1, post_slug = ''p'', post_title = ''P'', post_body = ''text'',
                post_author = 7, is_published = True, created_at = 10\<rparr>],
      comments = [\<lparr>comment_id = 4, comment_post = 1, comment_author = 7,
                   comment_body = ''a'', is_approved = True\<rparr>,
                  \<lparr>comment_id = 5, comment_post = 2, comment_author = 8,
                   comment_body = ''b'', is_approved = True\<rparr>,
                  \<lparr>comment_id = 6, comment_post = 1, comment_author = 8,
                   comment_body = ''c'', is_approved = False\<rparr>]\<rparr> = Inr r"
    by (simp add: post_retrieve_def get_object_def get_queryset_def check_permissions_def
          IsAdminOrReadOnly_def)
  then obtain r where run: "post_retrieve AnonymousUser 1
     \<lparr>posts = [\<lparr>post_id = 1, post_slug = ''p'', post_title = ''P'', post_body = ''text'',
                post_author = 7, is_published = True, created_at = 10\<rparr>],
      comments = [\<lparr>comment_id = 4, comment_post = 1, comment_author = 7,
                   comment_body = ''a'', is_approved = True\<rparr>,
                  \<lparr>comment_id = 5, comment_post = 2, comment_author = 8,
                   comment_body = ''b'', is_approved = True\<rparr>,
                  \<lparr>comment_id = 6, comment_post = 1, comment_author = 8,
                   comment_body = ''c'', is_approved = False\<rparr>]\<rparr> = Inr r" ..
  from post_retrieve_all_comments [OF run] have
    "r = Detail \<lparr>post_id = 1, post_slug = ''p'', post_title = ''P'', post_body = ''text'',
                  post_author = 7, is_published = True, created_at = 10\<rparr>
            [\<lparr>comment_id = 4, comment_post = 1, comment_author = 7,
              comment_body = ''a'', is_approved = True\<rparr>,
             \<lparr>comment_id = 6, comment_post = 1, comment_author = 8,
              comment_body = ''c'', is_approved = False\<rparr>]"
    by simp
  with run show ?thesis by simp
qed

section \<open>Comments on an unpublished post\<close>

text \<open>
  Claim C10. Primary keys are unique in both tables. For a comment C of the store
  whose post P is unpublished, a caller who is staff or is the author of C retrieves,
  updates and deletes C by its key: the lookup runs on all comments and does not
  ask whether P is visible. When that caller is not staff, retrieving P itself
  answers NotFound.
\<close>

theorem comment_on_unpublished_post:
  assumes "distinct (map comment_id (comments db))"
      and "C \<in> set (comments db)"
      and "distinct (map post_id (posts db))"
      and "P \<in> set (posts db)"
      and "comment_post C = post_id P"
      and "\<not> is_published P"
      and "is_staff u \<or> user_id u = Some (comment_author C)"
  shows "comment_retrieve u (comment_id C) db = Inr C
       \<and> comment_update u (comment_id C) (Some vd) db =
           Inr (db\<lparr>comments := map (\<lambda>c. if comment_id c = comment_id C
                                            then perform_update u vd C else c)
                                      (comments db)\<rparr>,
                perform_update u vd C)
       \<and> comment_destroy u (comment_id C) db =
           Inr (db\<lparr>comments := filter (\<lambda>c. comment_id c \<noteq> comment_id C) (comments db)\<rparr>)
       \<and> (\<not> is_staff u \<longrightarrow> post_retrieve u (comment_post C) db = Inl NotFound)"
proof -
  note g = comment_get_object_present [OF assms(1,2), of u]
  have r: "comment_retrieve u (comment_id C) db = Inr C"
    using assms(7) by (simp add: comment_retrieve_def g)
  have w: "comment_update u (comment_id C) (Some vd) db =
           Inr (db\<lparr>comments := map (\<lambda>c. if comment_id c = comment_id C
                                            then perform_update u vd C else c)
                                      (comments db)\<rparr>,
                perform_update u vd C)"
    using assms(7) by (simp add: comment_update_def g)
  have d: "comment_destroy u (comment_id C) db =
           Inr (db\<lparr>comments := filter (\<lambda>c. comment_id c \<noteq> comment_id C) (comments db)\<rparr>)"
    using assms(7) by (simp add: comment_destroy_def g)
  have n: "\<not> is_staff u \<longrightarrow> post_retrieve u (comment_post C) db = Inl NotFound"
  proof
    assume ns: "\<not> is_staff u"
    have "\<forall>p \<in> set (posts db). post_id p = post_id P \<longrightarrow> \<not> is_published p"
      using assms(3,4,6) distinct_map_unique by metis
    then have "find (\<lambda>p. post_id p = post_id P) (filter is_published (posts db)) = None"
      by (rule find_filter_None)
    then have "get_object u Retrieve (post_id P) db = Inl NotFound"
      using ns by (simp add: get_object_def get_queryset_def)
    then show "post_retrieve u (comment_post C) db = Inl NotFound"
      by (simp add: assms(5) post_retrieve_def check_permissions_def IsAdminOrReadOnly_def)
  qed
  from r w d n show ?thesis by blast
qed

text \<open>
  User 8, not staff, wrote comment 4 on the unpublished post 3 of user 7: user 8
  reads and edits the comment, and gets 404 for the post.
\<close>

theorem comment_on_unpublished_post_witness:
  "comment_retrieve (User 8 False) 4
     \<lparr>posts = [\<lparr>post_id = 3, post_slug = ''draft'', post_title = ''Draft'', post_body = ''text'',
                post_author = 7, is_published = False, created_at = 10\<rparr>],
      comments = [\<lparr>comment_id = 4, comment_post = 3, comment_author = 8,
                   comment_body = ''hi'', is_approved = False\<rparr>]\<rparr>
     = Inr \<lparr>comment_id = 4, comment_post = 3, comment_author = 8,
            comment_body = ''hi'', is_approved = False\<rparr>
   \<and> comment_update (User 8 False) 4 (Some [''body'' \<mapsto> VStr ''x''])
     \<lparr>posts = [\<lparr>post_id = 3, post_slug = ''draft'', post_title = ''Draft'', post_body = ''text'',
                post_author = 7, is_published = False, created_at = 10\<rparr>],
      comments = [\<lparr>comment_id = 4, comment_post = 3, comment_author = 8,
                   comment_body = ''hi'', is_approved = False\<rparr>]\<rparr>
     = Inr (\<lparr>posts = [\<lparr>post_id = 3, post_slug = ''draft'', post_title = ''Draft'',
                       post_body = ''text'', post_author = 7, is_published = False,
                       created_at = 10\<rparr>],
             comments = [\<lparr>comment_id = 4, comment_post = 3, comment_author = 8,
                          comment_body = ''x'', is_approved = False\<rparr>]\<rparr>,
            \<lparr>comment_id = 4, comment_post = 3, comment_author = 8,
             comment_body = ''x'', is_approved = False\<rparr>)
   \<and> comment_destroy (User 8 False) 4
     \<lparr>posts = [\<lparr>post_id = 3, post_slug = ''draft'', post_title = ''Draft'', post_body = ''text'',
                post_author = 7, is_published = False, created_at = 10\<rparr>],
      comments = [\<lparr>comment_id = 4, comment_post = 3, comment_author = 8,
                   comment_body = ''hi'', is_approved = False\<rparr>]\<rparr>
     = Inr \<lparr>posts = [\<lparr>post_id = 3, post_slug = ''draft'', post_title = ''Draft'',
                      post_body = ''text'', post_author = 7, is_published = False,
                      created_at = 10\<rparr>],
            comments = []\<rparr>
   \<and> post_retrieve (User 8 False) 3
     \<lparr>posts = [\<lparr>post_id = 3, post_slug = ''draft'', post_title = ''Draft'', post_body = ''text'',
                post_author = 7, is_published = False, created_at = 10\<rparr>],
      comments = [\<lparr>comment_id = 4, comment_post = 3, comment_author = 8,
                   comment_body = ''hi'', is_approved = False\<rparr>]\<rparr>
     = Inl NotFound"
  using comment_on_unpublished_post
    [of "\<lparr>posts = [\<lparr>post_id = 3, post_slug = ''draft'', post_title = ''Draft'', post_body = ''text'',
                post_author = 7, is_published = False, created_at = 10\<rparr>],
      comments = [\<lparr>comment_id = 4, comment_post = 3, comment_author = 8,
                   comment_body = ''hi'', is_approved = False\<rparr>]\<rparr>"
        "\<lparr>comment_id = 4, comment_post = 3, comment_author = 8,
                   comment_body = ''hi'', is_approved = False\<rparr>"
        "\<lparr>post_id = 3, post_slug = ''draft'', post_title = ''Draft'', post_body = ''text'',
                post_author = 7, is_published = False, created_at = 10\<rparr>"
        "User 8 False" "[''body'' \<mapsto> VStr ''x'']"]
  by (simp add: perform_update_def save_comment_def str_field_def bool_field_def ref_field_def)

end
